theory Spec2Isabelle
  imports Complex_Main
begin

section \<open>The Oh et al. (1992) bare-soil backscatter model of \<open>sigma0/oh_model.py\<close>\<close>

text \<open>
  The module consists of three pure functions, \<open>gammah\<close>, \<open>gammav\<close> and \<open>sigma0_bare\<close>.
  They are embedded over the exact real and complex numbers: a Python \<open>float\<close> is a
  \<^typ>\<open>real\<close>, a Python \<open>complex\<close> is a \<^typ>\<open>complex\<close>, and \<open>np.sqrt\<close> on a complex
  argument is the principal square root \<^const>\<open>csqrt\<close>.  The rounding, the finite
  range and the signed zeros of IEEE arithmetic are not part of the model.  What the
  arithmetic of the source does where the real-number operation is undefined is
  written out as a \<open>fault\<close>.

  A property of the model is a property of the program where it does not hinge on
  rounding: an output that is given by the formula of its contract, a relation between
  outputs that the code computes as that very product, an input that is never read, a
  value reached through operations that are exact in doubles.  An exact comparison between
  results that the program reaches along different computations (two quotients being
  equal, a quotient being at most \<open>1\<close> or exactly \<open>0\<close>) can be true of the real numbers
  and fail by a unit in the last place in the program; such comparisons are not
  stated here.  The bounds on the reflectivities among the auxiliary facts serve to
  show that results exist.
\<close>

subsection \<open>Arithmetic faults\<close>

text \<open>
  \<^item> \<open>ZeroDivisionError\<close>: Python raises (division of a Python \<open>complex\<close> by zero, a zero
    Python \<open>float\<close> raised to a negative power).
  \<^item> \<open>NotFinite\<close>: numpy does not raise; it emits a \<open>RuntimeWarning\<close> and produces
    \<open>inf\<close> or \<open>nan\<close> (division of a numpy scalar by zero, a negative numpy base raised
    to a fractional power).  The model stops at the first intermediate value that is
    not a finite real number.
  \<^item> \<open>NotReal\<close>: Python's \<open>float ** float\<close> with a negative base and a fractional
    exponent is a complex number; the model covers real-valued results only.
\<close>

datatype fault = ZeroDivisionError | NotFinite | NotReal

text \<open>Sequencing: the next statement runs on the value of the previous one, a fault
  is passed on.\<close>

definition and_then :: "fault + 'a \<Rightarrow> ('a \<Rightarrow> fault + 'b) \<Rightarrow> fault + 'b" where
  "and_then m k = (case m of Inl e \<Rightarrow> Inl e | Inr v \<Rightarrow> k v)"

text \<open>Division of two Python \<open>complex\<close> values (\<open>eps_low / eps_top\<close>).\<close>

definition py_cdiv :: "complex \<Rightarrow> complex \<Rightarrow> fault + complex" where
  "py_cdiv a b = (if b = 0 then Inl ZeroDivisionError else Inr (a / b))"

text \<open>Division of two \<open>np.complex128\<close> scalars (the Fresnel quotient).\<close>

definition np_cdiv :: "complex \<Rightarrow> complex \<Rightarrow> fault + complex" where
  "np_cdiv a b = (if b = 0 then Inl NotFinite else Inr (a / b))"

text \<open>Division with an \<open>np.float64\<close> divisor (\<open>1. / (3. * gam0)\<close>, \<open>... / root_p\<close>).\<close>

definition np_div :: "real \<Rightarrow> real \<Rightarrow> fault + real" where
  "np_div a b = (if b = 0 then Inl NotFinite else Inr (a / b))"

text \<open>The real value of \<open>b ** e\<close> where it has one: \<open>0 ** 0\<close> is \<open>1\<close>, a negative base
  takes integral exponents only.\<close>

definition real_pow :: "real \<Rightarrow> real \<Rightarrow> real" where
  "real_pow b e = (if e = 0 then 1 else if b < 0 then b powi \<lfloor>e\<rfloor> else b powr e)"

text \<open>Python's \<open>float ** float\<close> (\<open>k_rms ** 1.8\<close>).\<close>

definition py_pow :: "real \<Rightarrow> real \<Rightarrow> fault + real" where
  "py_pow b e =
     (if b = 0 \<and> e < 0 then Inl ZeroDivisionError
      else if b < 0 \<and> e \<notin> \<int> then Inl NotReal
      else Inr (real_pow b e))"

text \<open>numpy's power with an \<open>np.float64\<close> exponent (\<open>(2. * theta / pi) ** (1. / (3. * gam0))\<close>).\<close>

definition np_power :: "real \<Rightarrow> real \<Rightarrow> fault + real" where
  "np_power b e =
     (if b = 0 \<and> e < 0 then Inl NotFinite
      else if b < 0 \<and> e \<notin> \<int> then Inl NotFinite
      else Inr (real_pow b e))"

subsection \<open>Fresnel reflectivities\<close>

definition gammah :: "complex \<Rightarrow> real \<Rightarrow> fault + real" where
  "gammah eps theta =
     (let theta_rad = theta / 180 * pi;
          costheta = cos theta_rad;
          neliojuuri = csqrt (eps - of_real ((sin theta_rad)\<^sup>2))
      in and_then (np_cdiv (of_real costheta - neliojuuri) (of_real costheta + neliojuuri))
           (\<lambda>z. Inr ((cmod z)\<^sup>2)))"

definition gammav :: "complex \<Rightarrow> real \<Rightarrow> fault + real" where
  "gammav eps theta =
     (let theta_rad = theta / 180 * pi;
          costheta = cos theta_rad;
          neliojuuri = csqrt (eps - of_real ((sin theta_rad)\<^sup>2))
      in and_then (np_cdiv (eps * of_real costheta - neliojuuri)
                           (eps * of_real costheta + neliojuuri))
           (\<lambda>z. Inr ((cmod z)\<^sup>2)))"

subsection \<open>Surface backscatter\<close>

text \<open>The returned dictionary has exactly the keys \<open>'vv'\<close>, \<open>'vh'\<close> and \<open>'hh'\<close>.\<close>

record sigma0 =
  vv :: real
  vh :: real
  hh :: real

text \<open>The optional parameter \<open>eps_top=1\<close> is an \<open>option\<close>: \<open>None\<close> is the omitted
  argument, which takes the default of the signature.\<close>

definition eps_top_default :: "complex option \<Rightarrow> complex" where
  "eps_top_default eps_top = (case eps_top of None \<Rightarrow> 1 | Some t \<Rightarrow> t)"

text \<open>The statements of the function body follow in source order.  The source rebinds
  \<open>theta\<close> to its value in radians after the three reflectivities are computed; the
  rebound value is \<open>theta_rad\<close> here.

  The first fault ends the call.  numpy itself would carry an \<open>inf\<close> or \<open>nan\<close> through
  the remaining statements into the dictionary (and can come back to finite entries,
  as \<open>1. / 0. = inf\<close> and \<open>x ** inf = 0.\<close> for \<open>0 \<le> x < 1\<close> when \<open>gam0 = 0\<close>); a result
  \<open>Inr r\<close> of the model is one that real arithmetic alone produces.\<close>

definition sigma0_bare ::
  "real \<Rightarrow> complex \<Rightarrow> real \<Rightarrow> real \<Rightarrow> complex option \<Rightarrow> fault + sigma0" where
  "sigma0_bare theta eps_low f_rms f eps_top =
     (let k_rms = (2 * pi) * f_rms in
      and_then (py_cdiv eps_low (eps_top_default eps_top)) (\<lambda>eps_eff.
      and_then (gammah eps_eff 0) (\<lambda>gam0.
      and_then (gammah eps_eff theta) (\<lambda>gamh.
      and_then (gammav eps_eff theta) (\<lambda>gamv.
      let theta_rad = theta / 180 * pi;
          ct = cos theta_rad
      in
      and_then (py_pow k_rms 1.8) (\<lambda>kp.
      let g = 0.7 * (1 - exp (- 0.65 * kp)) in
      and_then (np_div 1 (3 * gam0)) (\<lambda>ex.
      and_then (np_power (2 * theta_rad / pi) ex) (\<lambda>pw.
      let root_p = 1 - pw * exp (- k_rms);
          q = 0.23 * sqrt gam0 * (1 - exp (- k_rms))
      in
      and_then (np_div (g * (ct * (ct * ct)) * (gamv + gamh)) root_p) (\<lambda>s.
      Inr \<lparr>vv = s, vh = q * s, hh = root_p * root_p * s\<rparr>)))))))))"

subsection \<open>The contracts of the two reflectivities, as the specification words them\<close>

text \<open>
  The specification gives each reflectivity as a quotient of two squared magnitudes,
  with the angle converted as \<open>angle_degrees * pi / 180\<close>.  The source instead squares
  the magnitude of the complex quotient.  The two definitions below follow the
  specification; they are compared with \<open>gammah\<close> and \<open>gammav\<close> further down.
\<close>

definition reflectivity_h_formula :: "complex \<Rightarrow> real \<Rightarrow> real" where
  "reflectivity_h_formula \<epsilon> angle_degrees =
     (let \<theta> = angle_degrees * pi / 180;
          w = csqrt (\<epsilon> - of_real ((sin \<theta>)\<^sup>2))
      in (cmod (of_real (cos \<theta>) - w))\<^sup>2 / (cmod (of_real (cos \<theta>) + w))\<^sup>2)"

definition reflectivity_v_formula :: "complex \<Rightarrow> real \<Rightarrow> real" where
  "reflectivity_v_formula \<epsilon> angle_degrees =
     (let \<theta> = angle_degrees * pi / 180;
          w = csqrt (\<epsilon> - of_real ((sin \<theta>)\<^sup>2))
      in (cmod (\<epsilon> * of_real (cos \<theta>) - w))\<^sup>2 / (cmod (\<epsilon> * of_real (cos \<theta>) + w))\<^sup>2)"

section \<open>Auxiliary facts\<close>

subsection \<open>The Fresnel quotients\<close>

lemma gammah_unfold:
  "gammah eps theta =
     (if of_real (cos (theta / 180 * pi)) + csqrt (eps - of_real ((sin (theta / 180 * pi))\<^sup>2)) = 0
      then Inl NotFinite
      else Inr ((cmod ((of_real (cos (theta / 180 * pi)) - csqrt (eps - of_real ((sin (theta / 180 * pi))\<^sup>2)))
                     / (of_real (cos (theta / 180 * pi)) + csqrt (eps - of_real ((sin (theta / 180 * pi))\<^sup>2)))))\<^sup>2))"
  by (simp add: gammah_def np_cdiv_def and_then_def Let_def)

lemma gammav_unfold:
  "gammav eps theta =
     (if eps * of_real (cos (theta / 180 * pi)) + csqrt (eps - of_real ((sin (theta / 180 * pi))\<^sup>2)) = 0
      then Inl NotFinite
      else Inr ((cmod ((eps * of_real (cos (theta / 180 * pi)) - csqrt (eps - of_real ((sin (theta / 180 * pi))\<^sup>2)))
                     / (eps * of_real (cos (theta / 180 * pi)) + csqrt (eps - of_real ((sin (theta / 180 * pi))\<^sup>2)))))\<^sup>2))"
  by (simp add: gammav_def np_cdiv_def and_then_def Let_def)

lemma h_den_nonzero:
  assumes "0 < c"
  shows "of_real c + csqrt w \<noteq> 0"
proof
  assume "of_real c + csqrt w = 0"
  then have "Re (of_real c + csqrt w) = 0" by simp
  then have "c + Re (csqrt w) = 0" by (simp del: csqrt.simps)
  with assms Re_csqrt [of w] show False by linarith
qed

lemma re_eps_cnj:
  fixes a :: real
  assumes "s\<^sup>2 = eps - of_real a"
  shows "Re (eps * cnj s) = ((cmod s)\<^sup>2 + a) * Re s"
proof -
  have "eps = s * s + of_real a" using assms by (simp add: power2_eq_square algebra_simps)
  then have "eps * cnj s = s * (s * cnj s) + of_real a * cnj s" by (simp add: algebra_simps)
  also have "s * cnj s = of_real ((cmod s)\<^sup>2)" by (simp add: complex_mult_cnj cmod_power2)
  finally show ?thesis by (simp add: algebra_simps)
qed

lemma cmod_sum_diff: "(cmod (a + b))\<^sup>2 - (cmod (a - b))\<^sup>2 = 4 * Re (a * cnj b)"
  unfolding cmod_power2 by (simp add: power2_eq_square algebra_simps)

lemma cmod_diff_le_sum:
  assumes "0 \<le> Re (a * cnj b)"
  shows "cmod (a - b) \<le> cmod (a + b)"
proof -
  have "(cmod (a - b))\<^sup>2 \<le> (cmod (a + b))\<^sup>2"
    using cmod_sum_diff [of a b] assms by linarith
  then show ?thesis by (simp add: power2_le_iff_abs_le)
qed

lemma h_quot_le_1:
  assumes "0 \<le> c"
  shows "cmod (of_real c - csqrt w) \<le> cmod (of_real c + csqrt w)"
proof (rule cmod_diff_le_sum)
  have "Re (of_real c * cnj (csqrt w)) = c * Re (csqrt w)" by (simp del: csqrt.simps)
  then show "0 \<le> Re (of_real c * cnj (csqrt w))" using assms Re_csqrt [of w] by simp
qed

lemma re_scaled:
  fixes c :: real
  shows "Re (eps * of_real c * cnj s) = c * Re (eps * cnj s)"
  by (simp add: algebra_simps)

lemma re_eps_csqrt:
  fixes a c :: real
  assumes "0 \<le> c" "0 \<le> a"
  shows "Re (eps * of_real c * cnj (csqrt (eps - of_real a)))
           = c * (((cmod (csqrt (eps - of_real a)))\<^sup>2 + a) * Re (csqrt (eps - of_real a)))"
    and "0 \<le> Re (eps * of_real c * cnj (csqrt (eps - of_real a)))"
proof -
  let ?s = "csqrt (eps - of_real a)"
  have r: "Re (eps * cnj ?s) = ((cmod ?s)\<^sup>2 + a) * Re ?s"
    by (rule re_eps_cnj) (rule power2_csqrt)
  show e: "Re (eps * of_real c * cnj ?s) = c * (((cmod ?s)\<^sup>2 + a) * Re ?s)"
    unfolding re_scaled r ..
  have "0 \<le> ((cmod ?s)\<^sup>2 + a) * Re ?s"
    using assms(2) Re_csqrt [of "eps - of_real a"] by (intro mult_nonneg_nonneg add_nonneg_nonneg zero_le_power2)
  then show "0 \<le> Re (eps * of_real c * cnj ?s)"
    unfolding e using assms(1) by (rule mult_nonneg_nonneg [rotated])
qed

lemma v_quot_le_1:
  fixes a c :: real
  assumes "0 \<le> c" "0 \<le> a"
  shows "cmod (eps * of_real c - csqrt (eps - of_real a)) \<le> cmod (eps * of_real c + csqrt (eps - of_real a))"
  by (rule cmod_diff_le_sum) (rule re_eps_csqrt(2) [OF assms])

lemma v_den_zero:
  fixes a c :: real
  assumes "0 < c" "0 \<le> a" "eps * of_real c + csqrt (eps - of_real a) = 0"
  shows "eps = 0 \<and> a = 0"
proof -
  let ?s = "csqrt (eps - of_real a)"
  have e: "eps * of_real c = - ?s" using assms(3) by (simp only: add_eq_0_iff2)
  have "0 \<le> Re (eps * of_real c * cnj ?s)"
    using assms(1,2) by (intro re_eps_csqrt(2)) simp_all
  moreover have "Re (- ?s * cnj ?s) = - ((cmod ?s)\<^sup>2)"
    unfolding cmod_power2 by (simp add: power2_eq_square del: csqrt.simps)
  ultimately have "(cmod ?s)\<^sup>2 \<le> 0" unfolding e by linarith
  then have s0: "?s = 0" by (simp del: csqrt.simps norm_csqrt)
  then have "eps * of_real c = 0" using e by simp
  then have "eps = 0" using assms(1) by simp
  moreover have "eps - of_real a = 0" using s0 by simp
  ultimately show ?thesis by simp
qed

lemma csqrt_4: "csqrt 4 = 2"
  by (rule csqrt_unique) simp_all

lemma gammah_in_unit:
  assumes "0 < cos (theta / 180 * pi)"
  shows "\<exists>r. gammah eps theta = Inr r \<and> 0 \<le> r \<and> r \<le> 1"
proof -
  let ?c = "cos (theta / 180 * pi)"
  let ?w = "eps - of_real ((sin (theta / 180 * pi))\<^sup>2)"
  have d: "of_real ?c + csqrt ?w \<noteq> 0" using assms by (rule h_den_nonzero)
  have "cmod (of_real ?c - csqrt ?w) \<le> cmod (of_real ?c + csqrt ?w)"
    using assms by (intro h_quot_le_1) simp
  then have "cmod ((of_real ?c - csqrt ?w) / (of_real ?c + csqrt ?w)) \<le> 1"
    using d by (simp add: norm_divide del: csqrt.simps)
  then have "(cmod ((of_real ?c - csqrt ?w) / (of_real ?c + csqrt ?w)))\<^sup>2 \<le> 1"
    by (simp add: power_le_one del: csqrt.simps)
  then show ?thesis using d by (simp add: gammah_unfold del: csqrt.simps)
qed

lemma gammav_in_unit:
  assumes "0 < cos (theta / 180 * pi)" and "eps \<noteq> 0 \<or> sin (theta / 180 * pi) \<noteq> 0"
  shows "\<exists>r. gammav eps theta = Inr r \<and> 0 \<le> r \<and> r \<le> 1"
proof -
  let ?c = "cos (theta / 180 * pi)"
  let ?a = "(sin (theta / 180 * pi))\<^sup>2"
  let ?w = "eps - of_real ?a"
  have d: "eps * of_real ?c + csqrt ?w \<noteq> 0"
  proof
    assume "eps * of_real ?c + csqrt ?w = 0"
    with assms(1) have "eps = 0 \<and> ?a = 0" by (intro v_den_zero [of ?c]) simp_all
    with assms(2) show False by simp
  qed
  have "cmod (eps * of_real ?c - csqrt ?w) \<le> cmod (eps * of_real ?c + csqrt ?w)"
    using assms(1) by (intro v_quot_le_1) simp_all
  then have "cmod ((eps * of_real ?c - csqrt ?w) / (eps * of_real ?c + csqrt ?w)) \<le> 1"
    using d by (simp add: norm_divide del: csqrt.simps)
  then have "(cmod ((eps * of_real ?c - csqrt ?w) / (eps * of_real ?c + csqrt ?w)))\<^sup>2 \<le> 1"
    by (simp add: power_le_one del: csqrt.simps)
  then show ?thesis using d by (simp add: gammav_unfold del: csqrt.simps)
qed

subsection \<open>Angles given in degrees, powers\<close>

lemma cos_deg_pos:
  assumes "0 \<le> theta" "theta < 90"
  shows "0 < cos (theta / 180 * pi)"
proof (rule cos_gt_zero_pi)
  have "0 \<le> theta / 180 * pi" using assms(1) by simp
  then show "- (pi / 2) < theta / 180 * pi" using pi_gt_zero by linarith
  have "theta / 180 * pi < 90 / 180 * pi"
    using assms(2) pi_gt_zero by (intro mult_strict_right_mono divide_strict_right_mono) simp_all
  then show "theta / 180 * pi < pi / 2" by simp
qed

lemma sin_deg_pos:
  assumes "0 < theta" "theta < 90"
  shows "0 < sin (theta / 180 * pi)"
proof (rule sin_gt_zero2)
  show "0 < theta / 180 * pi" using assms(1) by simp
  have "theta / 180 * pi < 90 / 180 * pi"
    using assms(2) pi_gt_zero by (intro mult_strict_right_mono divide_strict_right_mono) simp_all
  then show "theta / 180 * pi < pi / 2" by simp
qed

lemma gammah_normal:
  "gammah e 0 = Inr ((cmod ((1 - csqrt e) / (1 + csqrt e)))\<^sup>2)"
  using h_den_nonzero [of 1 e] by (simp add: gammah_unfold del: csqrt.simps)

lemma gammah_normal_zero_iff:
  "gammah e 0 = Inr 0 \<longleftrightarrow> e = 1"
proof -
  have "1 + csqrt e \<noteq> 0" using h_den_nonzero [of 1 e] by simp
  then have "(1 - csqrt e) / (1 + csqrt e) = 0 \<longleftrightarrow> csqrt e = 1"
    by (auto simp del: csqrt.simps)
  then show ?thesis by (simp add: gammah_normal del: csqrt.simps)
qed

lemma py_pow_nonneg:
  assumes "0 \<le> b" "0 < e"
  shows "py_pow b e = Inr (b powr e)"
  using assms by (simp add: py_pow_def real_pow_def)

lemma np_power_nonneg:
  assumes "0 \<le> b" "0 < e"
  shows "np_power b e = Inr (b powr e)"
  using assms by (simp add: np_power_def real_pow_def)

lemma powr_unit:
  fixes b e :: real
  assumes "0 \<le> b" "b < 1" "0 < e"
  shows "0 \<le> b powr e \<and> b powr e < 1"
proof (cases "b = 0")
  case True
  then show ?thesis by simp
next
  case False
  have "b powr e < 1 powr e" using assms by (intro powr_less_mono2) simp_all
  then show ?thesis by simp
qed

lemma root_p_unit:
  fixes pw k :: real
  assumes "0 \<le> pw" "pw < 1" "0 \<le> k"
  shows "0 < 1 - pw * exp (- k) \<and> 1 - pw * exp (- k) \<le> 1"
proof -
  have "exp (- k) \<le> 1" using assms(3) by simp
  then have "pw * exp (- k) \<le> pw * 1" using assms(1) by (intro mult_left_mono)
  then have "pw * exp (- k) < 1" using assms(2) by simp
  moreover have "0 \<le> pw * exp (- k)" using assms(1) by simp
  ultimately show ?thesis by simp
qed

subsection \<open>Evaluating \<open>sigma0_bare\<close>\<close>

lemma sigma0_bare_eval:
  assumes t: "eps_top_default eps_top \<noteq> 0"
    and g0: "gammah (eps_low / eps_top_default eps_top) 0 = Inr gam0"
    and gh: "gammah (eps_low / eps_top_default eps_top) theta = Inr gamh"
    and gv: "gammav (eps_low / eps_top_default eps_top) theta = Inr gamv"
    and kp: "py_pow (2 * pi * f_rms) 1.8 = Inr kp"
    and n0: "gam0 \<noteq> 0"
    and pw: "np_power (2 * (theta / 180 * pi) / pi) (1 / (3 * gam0)) = Inr pw"
    and rp: "1 - pw * exp (- (2 * pi * f_rms)) \<noteq> 0"
    and root_p: "root_p = 1 - pw * exp (- (2 * pi * f_rms))"
    and q: "q = 0.23 * sqrt gam0 * (1 - exp (- (2 * pi * f_rms)))"
    and s: "s = 0.7 * (1 - exp (- 0.65 * kp))
                * (cos (theta / 180 * pi) * (cos (theta / 180 * pi) * cos (theta / 180 * pi)))
                * (gamv + gamh) / root_p"
  shows "sigma0_bare theta eps_low f_rms f eps_top =
           Inr \<lparr>vv = s, vh = q * s, hh = root_p * root_p * s\<rparr>"
  unfolding sigma0_bare_def Let_def root_p q s
  using t n0 rp
  by (simp only: py_cdiv_def if_False and_then_def sum.case g0 gh gv kp pw np_div_def
        mult_eq_0_iff numeral_neq_zero zero_neq_numeral simp_thms)

lemma sigma0_bare_InrD:
  assumes "sigma0_bare theta eps_low f_rms f eps_top = Inr r"
  shows "\<exists>gam0 gamh gamv kp pw.
           eps_top_default eps_top \<noteq> 0
         \<and> gammah (eps_low / eps_top_default eps_top) 0 = Inr gam0
         \<and> gammah (eps_low / eps_top_default eps_top) theta = Inr gamh
         \<and> gammav (eps_low / eps_top_default eps_top) theta = Inr gamv
         \<and> py_pow (2 * pi * f_rms) 1.8 = Inr kp
         \<and> gam0 \<noteq> 0
         \<and> np_power (2 * (theta / 180 * pi) / pi) (1 / (3 * gam0)) = Inr pw
         \<and> 1 - pw * exp (- (2 * pi * f_rms)) \<noteq> 0"
  using assms unfolding sigma0_bare_def Let_def and_then_def py_cdiv_def np_div_def
  by (auto split: sum.splits if_splits)

lemma physical_parts:
  assumes th: "0 \<le> theta" "theta < 90"
    and fr: "0 \<le> f_rms"
    and e1: "e \<noteq> 1"
    and e0: "e \<noteq> 0 \<or> theta \<noteq> 0"
  shows "\<exists>gam0 gamh gamv pw.
           gammah e 0 = Inr gam0 \<and> 0 < gam0
         \<and> gammah e theta = Inr gamh \<and> 0 \<le> gamh
         \<and> gammav e theta = Inr gamv \<and> 0 \<le> gamv
         \<and> py_pow (2 * pi * f_rms) 1.8 = Inr ((2 * pi * f_rms) powr 1.8)
         \<and> np_power (2 * (theta / 180 * pi) / pi) (1 / (3 * gam0)) = Inr pw
         \<and> 0 \<le> pw \<and> pw < 1"
proof -
  define gam0 where "gam0 = (cmod ((1 - csqrt e) / (1 + csqrt e)))\<^sup>2"
  have g0: "gammah e 0 = Inr gam0" unfolding gam0_def by (rule gammah_normal)
  have "gam0 \<noteq> 0" using g0 gammah_normal_zero_iff [of e] e1 by auto
  moreover have "0 \<le> gam0" unfolding gam0_def by simp
  ultimately have gp: "0 < gam0" by simp
  have c: "0 < cos (theta / 180 * pi)" using th by (rule cos_deg_pos)
  obtain gamh where gh: "gammah e theta = Inr gamh" "0 \<le> gamh"
    using gammah_in_unit [OF c, of e] by blast
  have "e \<noteq> 0 \<or> sin (theta / 180 * pi) \<noteq> 0"
  proof (cases "theta = 0")
    case True
    then show ?thesis using e0 by simp
  next
    case False
    then have "0 < theta" using th(1) by simp
    then have "0 < sin (theta / 180 * pi)" using th(2) by (rule sin_deg_pos)
    then show ?thesis by simp
  qed
  then obtain gamv where gv: "gammav e theta = Inr gamv" "0 \<le> gamv"
    using gammav_in_unit [OF c, of e] by blast
  have k: "0 \<le> 2 * pi * f_rms" using fr by simp
  have kp: "py_pow (2 * pi * f_rms) 1.8 = Inr ((2 * pi * f_rms) powr 1.8)"
    using k by (intro py_pow_nonneg) simp_all
  have b: "2 * (theta / 180 * pi) / pi = theta / 90" by simp
  have b0: "0 \<le> theta / 90" "theta / 90 < 1" using th by simp_all
  have ex: "0 < 1 / (3 * gam0)" using gp by simp
  have pw: "np_power (2 * (theta / 180 * pi) / pi) (1 / (3 * gam0)) = Inr ((theta / 90) powr (1 / (3 * gam0)))"
    unfolding b using b0(1) ex by (rule np_power_nonneg)
  have "0 \<le> (theta / 90) powr (1 / (3 * gam0)) \<and> (theta / 90) powr (1 / (3 * gam0)) < 1"
    using b0 ex by (rule powr_unit)
  with g0 gp gh gv kp pw show ?thesis by blast
qed

lemma sigma0_bare_physical:
  assumes th: "0 \<le> theta" "theta < 90"
    and fr: "0 \<le> f_rms"
    and t: "eps_top_default eps_top \<noteq> 0"
    and e1: "eps_low / eps_top_default eps_top \<noteq> 1"
    and e0: "eps_low \<noteq> 0 \<or> theta \<noteq> 0"
  shows "\<exists>r gam0 pw. sigma0_bare theta eps_low f_rms f eps_top = Inr r
         \<and> gammah (eps_low / eps_top_default eps_top) 0 = Inr gam0 \<and> 0 < gam0
         \<and> np_power (2 * (theta / 180 * pi) / pi) (1 / (3 * gam0)) = Inr pw
         \<and> 0 < 1 - pw * exp (- (2 * pi * f_rms)) \<and> 1 - pw * exp (- (2 * pi * f_rms)) \<le> 1
         \<and> 0 \<le> vv r \<and> (f_rms = 0 \<longrightarrow> vv r = 0 \<and> vh r = 0 \<and> hh r = 0)"
proof -
  let ?e = "eps_low / eps_top_default eps_top"
  have "?e \<noteq> 0 \<or> theta \<noteq> 0" using e0 t by simp
  from physical_parts [OF th fr e1 this]
  obtain gam0 gamh gamv pw where p:
    "gammah ?e 0 = Inr gam0" "0 < gam0"
    "gammah ?e theta = Inr gamh" "0 \<le> gamh"
    "gammav ?e theta = Inr gamv" "0 \<le> gamv"
    "py_pow (2 * pi * f_rms) 1.8 = Inr ((2 * pi * f_rms) powr 1.8)"
    "np_power (2 * (theta / 180 * pi) / pi) (1 / (3 * gam0)) = Inr pw"
    "0 \<le> pw" "pw < 1"
    by blast
  have k: "0 \<le> 2 * pi * f_rms" using fr by simp
  have rp: "0 < 1 - pw * exp (- (2 * pi * f_rms)) \<and> 1 - pw * exp (- (2 * pi * f_rms)) \<le> 1"
    using p(9,10) k by (rule root_p_unit)
  then have rp0: "1 - pw * exp (- (2 * pi * f_rms)) \<noteq> 0" by simp
  have n0: "gam0 \<noteq> 0" using p(2) by simp
  define root_p where "root_p = 1 - pw * exp (- (2 * pi * f_rms))"
  define q where "q = 0.23 * sqrt gam0 * (1 - exp (- (2 * pi * f_rms)))"
  define g where "g = 0.7 * (1 - exp (- 0.65 * (2 * pi * f_rms) powr 1.8))"
  define ct where "ct = cos (theta / 180 * pi)"
  define s where "s = g * (ct * (ct * ct)) * (gamv + gamh) / root_p"
  have ev: "sigma0_bare theta eps_low f_rms f eps_top = Inr \<lparr>vv = s, vh = q * s, hh = root_p * root_p * s\<rparr>"
    using t p(1) p(3) p(5) p(7) n0 p(8) rp0 root_p_def q_def
    by (rule sigma0_bare_eval) (simp only: s_def g_def ct_def)
  have c: "0 < ct" unfolding ct_def using th by (rule cos_deg_pos)
  have g: "0 \<le> g" unfolding g_def by simp
  have "0 \<le> g * (ct * (ct * ct)) * (gamv + gamh)"
    using g c p(4,6) by (intro mult_nonneg_nonneg add_nonneg_nonneg) simp_all
  then have v: "0 \<le> s"
    unfolding s_def root_p_def using rp by (intro divide_nonneg_pos) simp_all
  have z: "s = 0" if "f_rms = 0" unfolding s_def g_def using that by simp
  have "0 < root_p" "root_p \<le> 1" unfolding root_p_def using rp by simp_all
  with ev p(1,2,8) v z show ?thesis unfolding root_p_def by auto
qed

lemma sigma0_bare_result:
  assumes "sigma0_bare theta eps_low f_rms f eps_top = Inr r"
  shows "\<exists>gam0 pw q root_p.
           gammah (eps_low / eps_top_default eps_top) 0 = Inr gam0
         \<and> gam0 \<noteq> 0
         \<and> np_power (2 * (theta / 180 * pi) / pi) (1 / (3 * gam0)) = Inr pw
         \<and> root_p = 1 - pw * exp (- (2 * pi * f_rms))
         \<and> q = 0.23 * sqrt gam0 * (1 - exp (- (2 * pi * f_rms)))
         \<and> vh r = q * vv r
         \<and> hh r = root_p * root_p * vv r"
proof -
  from sigma0_bare_InrD [OF assms]
  obtain gam0 gamh gamv kp pw where p:
    "eps_top_default eps_top \<noteq> 0"
    "gammah (eps_low / eps_top_default eps_top) 0 = Inr gam0"
    "gammah (eps_low / eps_top_default eps_top) theta = Inr gamh"
    "gammav (eps_low / eps_top_default eps_top) theta = Inr gamv"
    "py_pow (2 * pi * f_rms) 1.8 = Inr kp"
    "gam0 \<noteq> 0"
    "np_power (2 * (theta / 180 * pi) / pi) (1 / (3 * gam0)) = Inr pw"
    "1 - pw * exp (- (2 * pi * f_rms)) \<noteq> 0"
    by blast
  define root_p where "root_p = 1 - pw * exp (- (2 * pi * f_rms))"
  define q where "q = 0.23 * sqrt gam0 * (1 - exp (- (2 * pi * f_rms)))"
  define s where "s = 0.7 * (1 - exp (- 0.65 * kp))
                * (cos (theta / 180 * pi) * (cos (theta / 180 * pi) * cos (theta / 180 * pi)))
                * (gamv + gamh) / root_p"
  have "sigma0_bare theta eps_low f_rms f eps_top = Inr \<lparr>vv = s, vh = q * s, hh = root_p * root_p * s\<rparr>"
    using p root_p_def q_def s_def by (rule sigma0_bare_eval)
  with assms have r: "r = \<lparr>vv = s, vh = q * s, hh = root_p * root_p * s\<rparr>" by simp
  have "vh r = q * vv r" "hh r = root_p * root_p * vv r" by (simp_all add: r)
  then show ?thesis using p(2,6,7) root_p_def q_def by blast
qed

lemma np_power_value: "np_power b e = Inr pw \<Longrightarrow> pw = real_pow b e"
  by (simp add: np_power_def split: if_splits)

subsection \<open>Concrete values\<close>

lemma exp_pi_fifth: "1 / 3 < exp (- (2 * pi * (1 / 10)))"
proof -
  have "2 * pi * (1 / 10) < 1" using pi_less_4 by simp
  then have "exp (2 * pi * (1 / 10)) < exp 1" by (simp only: exp_less_cancel_iff)
  also have "\<dots> \<le> 3" by (rule exp_le)
  finally have "exp (2 * pi * (1 / 10)) < 3" .
  then have "inverse 3 < inverse (exp (2 * pi * (1 / 10)))"
    by (intro less_imp_inverse_less) simp_all
  then show ?thesis by (simp add: exp_minus inverse_eq_divide)
qed

lemma gammah_4_180: "gammah 4 180 = Inr 9"
  by (simp add: gammah_unfold csqrt_4)

lemma gammav_4_180: "gammav 4 180 = Inr 9"
  by (simp add: gammav_unfold csqrt_4)

lemma gammah_4_0: "gammah 4 0 = Inr (1 / 9)"
  by (simp add: gammah_normal csqrt_4 power_divide)

lemma real_pow_2_3: "real_pow 2 3 = 8"
  by (simp add: real_pow_def)

section \<open>Properties\<close>

subsection \<open>Reflectivities\<close>

text \<open>
  Claim C1, amended.  Whenever the denominator \<open>cos \<theta> + csqrt (\<epsilon> - sin\<^sup>2 \<theta>)\<close> of the
  Fresnel quotient is not zero, \<open>gammah\<close> returns the value of the contract,
  \<open>|cos \<theta> - csqrt (\<epsilon> - sin\<^sup>2 \<theta>)|\<^sup>2 / |cos \<theta> + csqrt (\<epsilon> - sin\<^sup>2 \<theta>)|\<^sup>2\<close> with
  \<open>\<theta> = angle_degrees * pi / 180\<close>, and that value is a nonnegative real; where the
  denominator is zero the call does not produce a finite real number.
\<close>

theorem gammah_formula:
  "gammah \<epsilon> angle_degrees =
     (if of_real (cos (angle_degrees * pi / 180))
           + csqrt (\<epsilon> - of_real ((sin (angle_degrees * pi / 180))\<^sup>2)) = 0
      then Inl NotFinite
      else Inr (reflectivity_h_formula \<epsilon> angle_degrees))
   \<and> 0 \<le> reflectivity_h_formula \<epsilon> angle_degrees"
  by (simp add: gammah_unfold reflectivity_h_formula_def Let_def norm_divide power_divide
           del: csqrt.simps)

text \<open>
  The theorem at permittivity \<open>4\<close> and normal incidence: the reflectivity is \<open>1/9\<close>.
\<close>

theorem gammah_formula_witness:
  "gammah 4 0 = Inr (1 / 9) \<and> reflectivity_h_formula 4 0 = 1 / 9"
  using gammah_formula [of 4 0]
  by (simp add: reflectivity_h_formula_def csqrt_4 power_divide)

text \<open>
  The unamended claim fails for matched media seen from behind: at \<open>\<epsilon> = 1\<close> and
  180 degrees the cosine is \<open>-1\<close>, the square root is \<open>1\<close>, and the quotient is \<open>-2 / 0\<close>.
\<close>

theorem gammah_fault_at_180: "gammah 1 180 = Inl NotFinite"
  by (simp add: gammah_unfold)

text \<open>
  Claim C2, amended.  Whenever the denominator \<open>\<epsilon> * cos \<theta> + csqrt (\<epsilon> - sin\<^sup>2 \<theta>)\<close> is
  not zero, \<open>gammav\<close> returns
  \<open>|\<epsilon> * cos \<theta> - csqrt (\<epsilon> - sin\<^sup>2 \<theta>)|\<^sup>2 / |\<epsilon> * cos \<theta> + csqrt (\<epsilon> - sin\<^sup>2 \<theta>)|\<^sup>2\<close> with
  \<open>\<theta> = angle_degrees * pi / 180\<close>, a nonnegative real; where the denominator is zero the
  call does not produce a finite real number.  The function has no guard and, being a
  function of its two arguments only, no effect besides its result.
\<close>

theorem gammav_formula:
  "gammav \<epsilon> angle_degrees =
     (if \<epsilon> * of_real (cos (angle_degrees * pi / 180))
           + csqrt (\<epsilon> - of_real ((sin (angle_degrees * pi / 180))\<^sup>2)) = 0
      then Inl NotFinite
      else Inr (reflectivity_v_formula \<epsilon> angle_degrees))
   \<and> 0 \<le> reflectivity_v_formula \<epsilon> angle_degrees"
  by (simp add: gammav_unfold reflectivity_v_formula_def Let_def norm_divide power_divide
           del: csqrt.simps)

text \<open>
  The theorem at permittivity \<open>4\<close> and normal incidence: the reflectivity is \<open>1/9\<close>.
\<close>

theorem gammav_formula_witness:
  "gammav 4 0 = Inr (1 / 9) \<and> reflectivity_v_formula 4 0 = 1 / 9"
  using gammav_formula [of 4 0]
  by (simp add: reflectivity_v_formula_def csqrt_4 power_divide)

text \<open>
  The unamended claim fails at \<open>\<epsilon> = 0\<close> and normal incidence, where the quotient is
  \<open>0 / 0\<close>.
\<close>

theorem gammav_fault_at_zero: "gammav 0 0 = Inl NotFinite"
  by (simp add: gammav_unfold)



subsection \<open>Surface backscatter\<close>

text \<open>
  Claim C6.  Whenever \<open>sigma0_bare\<close> returns a result, its \<open>vh\<close> component is \<open>q * vv\<close>
  with \<open>q = 0.23 * sqrt gamma0 * (1 - exp (- k_rms))\<close>, where \<open>gamma0\<close> is the value of
  \<open>gammah\<close> at the effective permittivity and angle \<open>0\<close>, and \<open>k_rms = 2 * pi * f_rms\<close>.
\<close>

theorem cross_pol_ratio:
  assumes "sigma0_bare theta eps_low f_rms f eps_top = Inr r"
  shows "\<exists>gamma0. gammah (eps_low / eps_top_default eps_top) 0 = Inr gamma0
         \<and> vh r = 0.23 * sqrt gamma0 * (1 - exp (- (2 * pi * f_rms))) * vv r"
  using sigma0_bare_result [OF assms] by blast

text \<open>
  The theorem at the input \<open>(40, 15 - 3j, 0.3, 5.3e9)\<close>, on which the call returns.
\<close>

theorem cross_pol_ratio_witness:
  "\<exists>r gamma0. sigma0_bare 40 (Complex 15 (- 3)) (3 / 10) 5300000000 None = Inr r
      \<and> gammah (Complex 15 (- 3) / eps_top_default None) 0 = Inr gamma0
      \<and> vh r = 0.23 * sqrt gamma0 * (1 - exp (- (2 * pi * (3 / 10)))) * vv r"
proof -
  have "\<exists>r. sigma0_bare 40 (Complex 15 (- 3)) (3 / 10) 5300000000 None = Inr r"
    using sigma0_bare_physical [of 40 "3 / 10" None "Complex 15 (- 3)" 5300000000]
    by (auto simp: eps_top_default_def complex_eq_iff)
  then obtain r where r: "sigma0_bare 40 (Complex 15 (- 3)) (3 / 10) 5300000000 None = Inr r" ..
  from cross_pol_ratio [OF r] r show ?thesis by blast
qed

text \<open>
  Claim C7, amended.  Whenever \<open>sigma0_bare\<close> returns a result, its \<open>hh\<close> component is
  \<open>root_p\<^sup>2 * vv\<close> with \<open>root_p = 1 - (2 \<theta> / pi) ** (1 / (3 * gamma0)) * exp (- k_rms)\<close>;
  and \<open>hh \<le> vv\<close> holds whenever \<open>- 1 \<le> root_p \<le> 1\<close> and \<open>vv\<close> is not negative.  The
  result is a record of the three components \<open>vv\<close>, \<open>vh\<close> and \<open>hh\<close>.
\<close>

theorem hh_from_vv:
  assumes "sigma0_bare theta eps_low f_rms f eps_top = Inr r"
  shows "\<exists>gamma0 root_p.
           gammah (eps_low / eps_top_default eps_top) 0 = Inr gamma0
         \<and> root_p = 1 - real_pow (2 * (theta * pi / 180) / pi) (1 / (3 * gamma0))
                          * exp (- (2 * pi * f_rms))
         \<and> hh r = root_p\<^sup>2 * vv r
         \<and> (- 1 \<le> root_p \<and> root_p \<le> 1 \<and> 0 \<le> vv r \<longrightarrow> hh r \<le> vv r)"
proof -
  from sigma0_bare_result [OF assms]
  obtain gam0 pw root_p where p:
    "gammah (eps_low / eps_top_default eps_top) 0 = Inr gam0"
    "np_power (2 * (theta / 180 * pi) / pi) (1 / (3 * gam0)) = Inr pw"
    "root_p = 1 - pw * exp (- (2 * pi * f_rms))"
    "hh r = root_p * root_p * vv r"
    by blast
  have pw: "pw = real_pow (2 * (theta * pi / 180) / pi) (1 / (3 * gam0))"
    using np_power_value [OF p(2)] by simp
  have sq: "hh r = root_p\<^sup>2 * vv r" using p(4) by (simp only: power2_eq_square)
  have "hh r \<le> vv r" if b: "- 1 \<le> root_p" "root_p \<le> 1" and v: "0 \<le> vv r"
  proof -
    have "root_p\<^sup>2 \<le> 1" using b by (simp add: abs_square_le_1 abs_le_iff)
    then have "root_p\<^sup>2 * vv r \<le> 1 * vv r" using v by (rule mult_right_mono)
    then show ?thesis using sq by simp
  qed
  with p(1) p(3) pw sq show ?thesis by blast
qed

text \<open>
  The theorem at the input \<open>(40, 15 - 3j, 0.3, 5.3e9)\<close>: the call returns, \<open>root_p\<close> lies
  in the unit interval, \<open>vv\<close> is not negative, and so \<open>hh \<le> vv\<close>.
\<close>

theorem hh_from_vv_witness:
  "\<exists>r. sigma0_bare 40 (Complex 15 (- 3)) (3 / 10) 5300000000 None = Inr r
      \<and> hh r \<le> vv r"
proof -
  from sigma0_bare_physical [of 40 "3 / 10" None "Complex 15 (- 3)" 5300000000]
  obtain r gam0 pw where p:
    "sigma0_bare 40 (Complex 15 (- 3)) (3 / 10) 5300000000 None = Inr r"
    "gammah (Complex 15 (- 3) / eps_top_default None) 0 = Inr gam0"
    "np_power (2 * (40 / 180 * pi) / pi) (1 / (3 * gam0)) = Inr pw"
    "0 < 1 - pw * exp (- (2 * pi * (3 / 10)))" "1 - pw * exp (- (2 * pi * (3 / 10))) \<le> 1"
    "0 \<le> vv r"
    by (auto simp: eps_top_default_def complex_eq_iff)
  from hh_from_vv [OF p(1)]
  obtain gamma0 root_p where h:
    "gammah (Complex 15 (- 3) / eps_top_default None) 0 = Inr gamma0"
    "root_p = 1 - real_pow (2 * (40 * pi / 180) / pi) (1 / (3 * gamma0)) * exp (- (2 * pi * (3 / 10)))"
    "- 1 \<le> root_p \<and> root_p \<le> 1 \<and> 0 \<le> vv r \<longrightarrow> hh r \<le> vv r"
    by blast
  have "gamma0 = gam0" using h(1) p(2) by simp
  moreover have "pw = real_pow (2 * (40 * pi / 180) / pi) (1 / (3 * gam0))"
    using np_power_value [OF p(3)] by simp
  ultimately have "root_p = 1 - pw * exp (- (2 * pi * (3 / 10)))" using h(2) by simp
  then have "- 1 \<le> root_p \<and> root_p \<le> 1" using p(4,5) by simp
  then have "hh r \<le> vv r" using h(3) p(6) by simp
  with p(1) show ?thesis by blast
qed

text \<open>
  The unamended claim, \<open>hh \<le> vv\<close> whenever \<open>root_p \<le> 1\<close>, fails at 180 degrees with
  permittivity \<open>4\<close> and \<open>f_rms = 0.1\<close>: there \<open>gamma0 = 1/9\<close>, \<open>root_p = 1 - 8 * exp (- pi / 5)\<close>
  is below \<open>-1\<close>, \<open>vv\<close> is positive, and \<open>hh = root_p\<^sup>2 * vv\<close> exceeds \<open>vv\<close>.
\<close>

theorem hh_exceeds_vv:
  "gammah (4 / eps_top_default None) 0 = Inr (1 / 9)
   \<and> 1 - real_pow (2 * (180 * pi / 180) / pi) (1 / (3 * (1 / 9))) * exp (- (2 * pi * (1 / 10))) \<le> 1
   \<and> \<not> isl (sigma0_bare 180 4 (1 / 10) 5300000000 None)
   \<and> vv (projr (sigma0_bare 180 4 (1 / 10) 5300000000 None))
       < hh (projr (sigma0_bare 180 4 (1 / 10) 5300000000 None))"
proof -
  define kp :: real where "kp = (2 * pi * (1 / 10)) powr 1.8"
  define root_p :: real where "root_p = 1 - 8 * exp (- (2 * pi * (1 / 10)))"
  define q :: real where "q = 0.23 * sqrt (1 / 9) * (1 - exp (- (2 * pi * (1 / 10))))"
  define s :: real where "s = 0.7 * (1 - exp (- 0.65 * kp))
                * (cos (180 / 180 * pi) * (cos (180 / 180 * pi) * cos (180 / 180 * pi)))
                * (9 + 9) / root_p"
  have rp: "root_p < - 1" unfolding root_p_def using exp_pi_fifth by simp
  have t: "eps_top_default None = 1" by (simp add: eps_top_default_def)
  have g0: "gammah (4 / eps_top_default None) 0 = Inr (1 / 9)" unfolding t using gammah_4_0 by simp
  have gh: "gammah (4 / eps_top_default None) 180 = Inr 9" unfolding t using gammah_4_180 by simp
  have gv: "gammav (4 / eps_top_default None) 180 = Inr 9" unfolding t using gammav_4_180 by simp
  have k: "py_pow (2 * pi * (1 / 10)) 1.8 = Inr kp"
    unfolding kp_def by (rule py_pow_nonneg) simp_all
  have pw: "np_power (2 * (180 / 180 * pi) / pi) (1 / (3 * (1 / 9))) = Inr 8"
    by (simp add: np_power_def real_pow_2_3)
  have ev: "sigma0_bare 180 4 (1 / 10) 5300000000 None
              = Inr \<lparr>vv = s, vh = q * s, hh = root_p * root_p * s\<rparr>"
  proof (rule sigma0_bare_eval [OF _ g0 gh gv k _ pw _ _ q_def s_def])
    show "eps_top_default None \<noteq> 0" unfolding t by simp
    show "(1 / 9 :: real) \<noteq> 0" by simp
    show "1 - 8 * exp (- (2 * pi * (1 / 10))) \<noteq> 0" using rp unfolding root_p_def by simp
    show "root_p = 1 - 8 * exp (- (2 * pi * (1 / 10)))" by (rule root_p_def)
  qed
  define A :: real where "A = 0.7 * (1 - exp (- 0.65 * kp))"
  have "0 < kp" unfolding kp_def by simp
  then have g: "0 < A" unfolding A_def by simp
  have "s = A * (cos (180 / 180 * pi) * (cos (180 / 180 * pi) * cos (180 / 180 * pi))) * (9 + 9) / root_p"
    unfolding s_def A_def ..
  also have "\<dots> = (- (18 * A)) / root_p" by simp
  finally have s: "s = (- (18 * A)) / root_p" .
  have sp: "0 < s" unfolding s using g rp by (intro divide_neg_neg) simp_all
  have "1 < (- root_p) * (- root_p)" using rp by (intro less_1_mult) simp_all
  then have "1 < root_p * root_p" by simp
  then have "1 * s < root_p * root_p * s" using sp by (rule mult_strict_right_mono)
  then have lt: "s < root_p * root_p * s" by simp
  have "1 - real_pow (2 * (180 * pi / 180) / pi) (1 / (3 * (1 / 9))) * exp (- (2 * pi * (1 / 10))) = root_p"
    unfolding root_p_def by (simp add: real_pow_2_3)
  then have le: "1 - real_pow (2 * (180 * pi / 180) / pi) (1 / (3 * (1 / 9))) * exp (- (2 * pi * (1 / 10))) \<le> 1"
    using rp by simp
  show ?thesis using g0 le lt by (simp add: ev)
qed

text \<open>
  Claim C8.  The frequency parameter \<open>f\<close> of \<open>sigma0_bare\<close> has no influence on the
  outcome: two calls that differ in the frequency only give the same result, or the
  same fault.
\<close>

theorem sigma0_bare_frequency_unused:
  "sigma0_bare theta eps_low f_rms f1 eps_top = sigma0_bare theta eps_low f_rms f2 eps_top"
  by (simp add: sigma0_bare_def)

text \<open>
  Claim C9.  \<open>sigma0_bare\<close> depends on the two permittivities through their quotient
  only: with a nonzero \<open>eps_top\<close>, the call is the call on \<open>eps_low / eps_top\<close> and
  \<open>eps_top = 1\<close>; and omitting \<open>eps_top\<close> is passing \<open>1\<close>.
\<close>

theorem eps_ratio_only:
  "(eps_top \<noteq> 0 \<longrightarrow>
      sigma0_bare theta eps_low f_rms f (Some eps_top)
        = sigma0_bare theta (eps_low / eps_top) f_rms f (Some 1))
   \<and> sigma0_bare theta eps_low f_rms f None = sigma0_bare theta eps_low f_rms f (Some 1)"
  by (simp add: sigma0_bare_def eps_top_default_def py_cdiv_def)

text \<open>
  The theorem at \<open>eps_low = 30 - 6j\<close> and \<open>eps_top = 2\<close>.
\<close>

theorem eps_ratio_only_witness:
  "sigma0_bare 40 (Complex 30 (- 6)) (3 / 10) 5300000000 (Some 2)
     = sigma0_bare 40 (Complex 30 (- 6) / 2) (3 / 10) 5300000000 (Some 1)"
  using eps_ratio_only [of 2 40 "Complex 30 (- 6)" "3 / 10" 5300000000] by simp




end
